theory Spec2Isabelle
  imports Main
begin

section \<open>Python strings and paths\<close>

text \<open>
  Python \<open>str\<close> values are modelled as \<open>string\<close>; a \<open>char\<close> stands for one character
  of ASCII text. The functions of this section are the library calls the
  voice assistant makes on strings: \<open>str.strip\<close>, \<open>str.split\<close>, \<open>str.replace\<close>,
  \<open>str(int)\<close>, \<open>os.path.join\<close> and, from \<open>pathlib\<close> on POSIX, \<open>Path(s)\<close> with
  \<open>str\<close>, \<open>name\<close> and \<open>suffix\<close> (as documented up to Python 3.13).
\<close>

definition is_space :: "char \<Rightarrow> bool" where
  \<comment> \<open>\<open>str.isspace\<close> on ASCII: tab, LF, VT, FF, CR, FS, GS, RS, US and space.\<close>
  "is_space c \<longleftrightarrow>
     c \<in> set [CHR 0x09, CHR 0x0A, CHR 0x0B, CHR 0x0C, CHR 0x0D,
               CHR 0x1C, CHR 0x1D, CHR 0x1E, CHR 0x1F, CHR 0x20]"

definition py_strip :: "string \<Rightarrow> string" where
  \<comment> \<open>\<open>s.strip()\<close>: leading and trailing whitespace removed.\<close>
  "py_strip s = rev (dropWhile is_space (rev (dropWhile is_space s)))"

fun split_acc :: "string \<Rightarrow> string \<Rightarrow> string list" where
  "split_acc cur [] = (if cur = [] then [] else [cur])"
| "split_acc cur (c # cs) =
     (if is_space c
      then (if cur = [] then split_acc [] cs else cur # split_acc [] cs)
      else split_acc (cur @ [c]) cs)"

definition py_split :: "string \<Rightarrow> string list" where
  \<comment> \<open>\<open>s.split()\<close>: the maximal runs of non-whitespace characters, in order.\<close>
  "py_split s = split_acc [] s"

fun replace_from :: "string \<Rightarrow> string \<Rightarrow> string \<Rightarrow> string" where
  "replace_from old new [] = []"
| "replace_from old new (c # cs) =
     (if take (length old) (c # cs) = old
      then new @ replace_from old new (drop (length old - 1) cs)
      else c # replace_from old new cs)"

definition py_replace :: "string \<Rightarrow> string \<Rightarrow> string \<Rightarrow> string" where
  \<comment> \<open>\<open>s.replace(old, new)\<close>: every non-overlapping occurrence of \<open>old\<close>, scanning from
      the left; with \<open>old\<close> empty, \<open>new\<close> is inserted before every character and at the end.\<close>
  "py_replace s old new =
     (if old = [] then new @ concat (map (\<lambda>c. c # new) s)
      else replace_from old new s)"

fun show_nat :: "nat \<Rightarrow> string" where
  "show_nat n =
     (if n < 10 then [''0123456789'' ! n]
      else show_nat (n div 10) @ [''0123456789'' ! (n mod 10)])"

declare show_nat.simps [simp del]

definition show_int :: "int \<Rightarrow> string" where
  \<comment> \<open>\<open>str(i)\<close> for an integer.\<close>
  "show_int i = (if i < 0 then CHR ''-'' # show_nat (nat (- i)) else show_nat (nat i))"

definition path_join :: "string \<Rightarrow> string \<Rightarrow> string" where
  \<comment> \<open>\<open>os.path.join(a, b)\<close> on POSIX.\<close>
  "path_join a b =
     (if take 1 b = ''/'' then b
      else if a = [] \<or> take 1 (rev a) = ''/'' then a @ b
      else a @ ''/'' @ b)"

fun split_on :: "char \<Rightarrow> string \<Rightarrow> string list" where
  "split_on sep [] = [[]]"
| "split_on sep (c # cs) =
     (if c = sep then [] # split_on sep cs
      else (case split_on sep cs of
              [] \<Rightarrow> [[c]]
            | p # ps \<Rightarrow> (c # p) # ps))"

fun join_with :: "string \<Rightarrow> string list \<Rightarrow> string" where
  "join_with sep [] = []"
| "join_with sep [p] = p"
| "join_with sep (p # q # ps) = p @ sep @ join_with sep (q # ps)"

definition path_root :: "string \<Rightarrow> string" where
  \<comment> \<open>The root of a POSIX path: exactly two leading slashes are kept, any other number
      of them is one.\<close>
  "path_root s =
     (if take 1 s \<noteq> ''/'' then []
      else if take 1 (drop 1 s) \<noteq> ''/'' \<or> take 1 (drop 2 s) = ''/'' then ''/''
      else ''//'')"

definition path_parts :: "string \<Rightarrow> string list" where
  \<comment> \<open>The components of \<open>Path(s)\<close> below the root: empty and \<open>.\<close> components are dropped.\<close>
  "path_parts s = filter (\<lambda>p. p \<noteq> [] \<and> p \<noteq> ''.'') (split_on (CHR ''/'') s)"

definition path_str :: "string \<Rightarrow> string" where
  \<comment> \<open>\<open>str(Path(s))\<close>.\<close>
  "path_str s =
     (if path_root s = [] \<and> path_parts s = [] then ''.''
      else path_root s @ join_with ''/'' (path_parts s))"

definition path_name :: "string \<Rightarrow> string" where
  \<comment> \<open>\<open>Path(s).name\<close>: the last component, empty when there is none.\<close>
  "path_name s = (case rev (path_parts s) of [] \<Rightarrow> [] | n # _ \<Rightarrow> n)"

definition path_suffix :: "string \<Rightarrow> string" where
  \<comment> \<open>\<open>Path(s).suffix\<close>: with \<open>i = name.rfind('.')\<close>, the slice \<open>name[i:]\<close> when
      \<open>0 < i < len(name) - 1\<close>, and the empty string otherwise.\<close>
  "path_suffix s =
     (let name = path_name s;
          ext = rev (takeWhile (\<lambda>c. c \<noteq> CHR ''.'') (rev name))
      in if CHR ''.'' \<in> set name \<and> ext \<noteq> [] \<and> length ext + 1 < length name
         then CHR ''.'' # ext else [])"

section \<open>The outside world\<close>

text \<open>
  Every stage of the assistant is a wrapper around an external program or an HTTP
  endpoint. The model threads a \<open>world\<close> through the code: the file system and the
  chronological log of everything the program did that can be observed from outside
  (lines printed, processes started, HTTP requests, files written, read and removed).
  What the external programs and the server answer is not decided by the program: it is
  given by an \<open>os\<close>, whose answers may depend on the whole world at the time of the call.
\<close>

datatype pyerr =
    KeyError string
  | FileNotFoundError string
  | CalledProcessError "string list" int string string
  | OSError string
  | ConnectionError string
  | RequestException string
  | JSONDecodeError
  | AttributeError string

record payload =
  p_model :: string
  p_prompt :: string
  p_system :: string
  p_stream :: bool

datatype event =
    Print string
  | PrintExc string pyerr
  | Spawn "string list"
  | HttpGet string
  | HttpPost string payload
  | WriteFile string string
  | ReadFile string
  | RemoveFile string

type_synonym fs = "string \<rightharpoonup> string"

record world =
  files :: fs
  trace :: "event list"

text \<open>
  The outcome of starting a program: the program is missing, it cannot be started for
  another reason (for instance it is not executable), or it ran and exited with a return
  code, its standard output and standard error, leaving the file system as given.
\<close>

datatype proc_result =
    NoSuchProgram
  | SpawnFailed string
  | Exited int string string fs

text \<open>
  The decoded body of an HTTP reply, as \<open>response.json()\<close> sees it: not JSON at all, a
  JSON value that is not an object, or an object. The fields of an object are strings,
  as the generation endpoint documents its \<open>response\<close> field.
\<close>

datatype body = NotJson | JsonNonObject | JsonObject "string \<rightharpoonup> string"

datatype http_result =
    ConnectionRefused string
  | RequestFailed string
  | Response int string body

record os =
  os_run :: "string list \<Rightarrow> world \<Rightarrow> proc_result"
  os_get :: "string \<Rightarrow> world \<Rightarrow> http_result"
  os_post :: "string \<Rightarrow> payload \<Rightarrow> world \<Rightarrow> http_result"
  os_time :: "world \<Rightarrow> int"
  os_tmpdir :: string
  os_tmpname :: "world \<Rightarrow> string"

type_synonym 'a result = "(pyerr + 'a) \<times> world"

definition log :: "event \<Rightarrow> world \<Rightarrow> world" where
  "log e w = w\<lparr>trace := trace w @ [e]\<rparr>"

definition print :: "string \<Rightarrow> world \<Rightarrow> world" where
  "print s w = log (Print s) w"

definition print_exc :: "string \<Rightarrow> pyerr \<Rightarrow> world \<Rightarrow> world" where
  \<comment> \<open>\<open>print(f"{prefix}{e}")\<close> for an exception \<open>e\<close>, whose rendering is left to the reader.\<close>
  "print_exc prefix e w = log (PrintExc prefix e) w"

definition path_exists :: "world \<Rightarrow> string \<Rightarrow> bool" where
  "path_exists w p \<longleftrightarrow> files w p \<noteq> None"

definition read_file :: "string \<Rightarrow> world \<Rightarrow> string result" where
  \<comment> \<open>\<open>open(p, "r")\<close> and \<open>read()\<close>.\<close>
  "read_file p w =
     (case files w p of
        None \<Rightarrow> (Inl (FileNotFoundError p), w)
      | Some content \<Rightarrow> (Inr content, log (ReadFile p) w))"

definition write_file :: "string \<Rightarrow> string \<Rightarrow> world \<Rightarrow> world" where
  "write_file p content w = log (WriteFile p content) (w\<lparr>files := (files w)(p \<mapsto> content)\<rparr>)"

definition remove_file :: "string \<Rightarrow> world \<Rightarrow> unit result" where
  \<comment> \<open>\<open>os.remove(p)\<close>, also \<open>os.unlink(p)\<close>.\<close>
  "remove_file p w =
     (case files w p of
        None \<Rightarrow> (Inl (FileNotFoundError p), w)
      | Some _ \<Rightarrow> (Inr (), log (RemoveFile p) (w\<lparr>files := (files w)(p := None)\<rparr>)))"

definition subprocess_run :: "os \<Rightarrow> string list \<Rightarrow> world \<Rightarrow> (string \<times> string) result" where
  \<comment> \<open>\<open>subprocess.run(cmd, check=True)\<close>: the standard output and standard error of a run
      that exits with code 0; \<open>FileNotFoundError\<close> for a missing program,
      \<open>CalledProcessError\<close> for any other exit code.\<close>
  "subprocess_run os cmd w =
     (let w1 = log (Spawn cmd) w in
      case os_run os cmd w of
        NoSuchProgram \<Rightarrow> (Inl (FileNotFoundError (concat (take 1 cmd))), w1)
      | SpawnFailed m \<Rightarrow> (Inl (OSError m), w1)
      | Exited rc out err fs' \<Rightarrow>
          (if rc \<noteq> 0 then (Inl (CalledProcessError cmd rc out err), w1\<lparr>files := fs'\<rparr>)
           else (Inr (out, err), w1\<lparr>files := fs'\<rparr>)))"

definition tool_failure :: "pyerr \<Rightarrow> bool" where
  \<comment> \<open>The exceptions matched by \<open>except (FileNotFoundError, subprocess.CalledProcessError)\<close>.\<close>
  "tool_failure e =
     (case e of FileNotFoundError _ \<Rightarrow> True | CalledProcessError _ _ _ _ \<Rightarrow> True | _ \<Rightarrow> False)"

section \<open>Configuration\<close>

text \<open>
  The configuration is a JSON object of sections (\<open>whisper\<close>, \<open>ollama\<close>, \<open>tts\<close>, \<open>audio\<close>),
  each a mapping from keys to scalars. A scalar is represented by its text (\<open>str(v)\<close>), so
  the default sample rate is \<open>''16000''\<close>. Subscripting a missing key raises \<open>KeyError\<close>;
  \<open>dict.get\<close> takes a default.
\<close>

type_synonym settings = "string \<rightharpoonup> string"
type_synonym config = "string \<rightharpoonup> settings"

definition get_default :: "settings \<Rightarrow> string \<Rightarrow> string \<Rightarrow> string" where
  "get_default c k d = (case c k of None \<Rightarrow> d | Some v \<Rightarrow> v)"

section \<open>Transcription (modules/whisper\_stt.py)\<close>

definition whisper_cmd :: "string \<Rightarrow> string \<Rightarrow> string \<Rightarrow> settings \<Rightarrow> string list" where
  "whisper_cmd whisper_executable audio_file model config =
     [whisper_executable, ''-f'', audio_file,
      ''-m'', ''./whisper.cpp/models/ggml-'' @ model @ ''.bin'', ''-otxt'']
     @ (case config ''params'' of None \<Rightarrow> [] | Some params \<Rightarrow> py_split params)"

definition output_path :: "string \<Rightarrow> string" where
  \<comment> \<open>\<open>Path(str(audio_file).replace(Path(audio_file).suffix, ".txt"))\<close>\<close>
  "output_path audio_file = path_str (py_replace audio_file (path_suffix audio_file) ''.txt'')"

definition transcribe_audio :: "os \<Rightarrow> string \<Rightarrow> settings \<Rightarrow> world \<Rightarrow> string result" where
  "transcribe_audio os audio_file config w =
     (case config ''executable'' of
        None \<Rightarrow> (Inl (KeyError ''executable''), w)
      | Some exe \<Rightarrow>
          let whisper_executable = path_str exe in
          if \<not> path_exists w whisper_executable then
            (Inl (FileNotFoundError
                    (''Whisper executable not found at '' @ whisper_executable @
                     ''. Please install whisper.cpp and update the config.'')), w)
          else
            (case config ''model'' of
               None \<Rightarrow> (Inl (KeyError ''model''), w)
             | Some model \<Rightarrow>
                 (case subprocess_run os (whisper_cmd whisper_executable audio_file model config) w of
                    (Inl (CalledProcessError c rc out err), w1) \<Rightarrow>
                      (Inr [],
                       print (''stderr: '' @ err)
                         (print_exc ''Error running whisper.cpp: '' (CalledProcessError c rc out err) w1))
                  | (Inl e, w1) \<Rightarrow> (Inl e, w1)
                  | (Inr (out, err), w1) \<Rightarrow>
                      let output_file = output_path audio_file in
                      if path_exists w1 output_file then
                        (case read_file output_file w1 of
                           (Inl e, w2) \<Rightarrow> (Inl e, w2)
                         | (Inr content, w2) \<Rightarrow>
                             (case remove_file output_file w2 of
                                (Inl e, w3) \<Rightarrow> (Inl e, w3)
                              | (Inr _, w3) \<Rightarrow> (Inr (py_strip content), w3)))
                      else (Inr (py_strip out), w1))))"

section \<open>Audio capture (modules/audio\_input.py)\<close>

definition recording_path :: "os \<Rightarrow> world \<Rightarrow> string" where
  \<comment> \<open>\<open>os.path.join(tempfile.gettempdir(), f"recording_{int(time.time())}.wav")\<close>\<close>
  "recording_path os w =
     path_join (os_tmpdir os) (''recording_'' @ show_int (os_time os w) @ ''.wav'')"

definition arecord_cmd :: "string \<Rightarrow> string \<Rightarrow> string \<Rightarrow> string \<Rightarrow> string list" where
  "arecord_cmd device sample_rate duration output_file =
     [''arecord'', ''-D'', device, ''-f'', ''S16_LE'', ''-c'', ''1'',
      ''-r'', sample_rate, ''-d'', duration, output_file]"

definition rec_cmd :: "string \<Rightarrow> string \<Rightarrow> string \<Rightarrow> string list" where
  "rec_cmd sample_rate duration output_file =
     [''rec'', ''-q'', output_file, ''rate'', sample_rate, ''channels'', ''1'',
      ''trim'', ''0'', duration]"

definition install_guidance :: "pyerr \<Rightarrow> world \<Rightarrow> world" where
  "install_guidance e w =
     print ''Install with: sudo apt-get install alsa-utils or sudo apt-get install sox''
       (print ''Make sure you have either ALSA tools (arecord) or SoX (rec) installed.''
          (print_exc ''Error recording audio: '' e w))"

definition record_audio :: "os \<Rightarrow> settings \<Rightarrow> world \<Rightarrow> string result" where
  "record_audio os config w =
     (let duration = get_default config ''duration'' ''5'';
          sample_rate = get_default config ''sample_rate'' ''16000'';
          device = get_default config ''device'' ''default'';
          output_file = recording_path os w
      in case subprocess_run os (arecord_cmd device sample_rate duration output_file) w of
           (Inr _, w1) \<Rightarrow> (Inr output_file, w1)
         | (Inl e, w1) \<Rightarrow>
             if tool_failure e then
               (case subprocess_run os (rec_cmd sample_rate duration output_file) w1 of
                  (Inr _, w2) \<Rightarrow> (Inr output_file, w2)
                | (Inl e2, w2) \<Rightarrow>
                    if tool_failure e2 then (Inl e2, install_guidance e2 w2)
                    else (Inl e2, w2))
             else (Inl e, w1))"

section \<open>Response generation (modules/ollama\_process.py)\<close>

definition tags_url :: string where
  "tags_url = ''http://localhost:11434/api/tags''"

definition generate_url :: string where
  "generate_url = ''http://localhost:11434/api/generate''"

definition connect_apology :: string where
  "connect_apology = ''Sorry, I'' @ [CHR 0x27] @ ''m having trouble connecting to my thinking module.''"

definition error_apology :: string where
  "error_apology = ''Sorry, I encountered an error while processing your request.''"

definition requests_get :: "os \<Rightarrow> string \<Rightarrow> world \<Rightarrow> (int \<times> string \<times> body) result" where
  \<comment> \<open>\<open>requests.get(url)\<close>: the status code, text and decoded body of the reply.\<close>
  "requests_get os url w =
     (let w1 = log (HttpGet url) w in
      case os_get os url w of
        ConnectionRefused m \<Rightarrow> (Inl (ConnectionError m), w1)
      | RequestFailed m \<Rightarrow> (Inl (RequestException m), w1)
      | Response code txt b \<Rightarrow> (Inr (code, txt, b), w1))"

definition requests_post :: "os \<Rightarrow> string \<Rightarrow> payload \<Rightarrow> world \<Rightarrow> (int \<times> string \<times> body) result" where
  \<comment> \<open>\<open>requests.post(url, json=payload)\<close>\<close>
  "requests_post os url pl w =
     (let w1 = log (HttpPost url pl) w in
      case os_post os url pl w of
        ConnectionRefused m \<Rightarrow> (Inl (ConnectionError m), w1)
      | RequestFailed m \<Rightarrow> (Inl (RequestException m), w1)
      | Response code txt b \<Rightarrow> (Inr (code, txt, b), w1))"

definition process_with_ollama :: "os \<Rightarrow> string \<Rightarrow> settings \<Rightarrow> world \<Rightarrow> string result" where
  "process_with_ollama os text config w =
     (case config ''model'' of
        None \<Rightarrow> (Inl (KeyError ''model''), w)
      | Some model \<Rightarrow>
          let system_prompt = get_default config ''system_prompt'' ''You are a helpful assistant.'' in
          (case requests_get os tags_url w of
             (Inl (ConnectionError m), w1) \<Rightarrow>
               (Inr connect_apology,
                print ''Ollama server not running. Please start ollama service.'' w1)
           | (Inl e, w1) \<Rightarrow> (Inl e, w1)
           | (Inr (code, txt, b), w1) \<Rightarrow>
               if code \<noteq> 200 then
                 (Inr connect_apology,
                  print (''Ollama server not responding. Make sure it'' @ [CHR 0x27] @ ''s running.'') w1)
               else
                 (let pl = \<lparr>p_model = model, p_prompt = text,
                            p_system = system_prompt, p_stream = False\<rparr> in
                  case requests_post os generate_url pl w1 of
                    (Inl e, w2) \<Rightarrow> (Inr error_apology, print_exc ''Error calling ollama: '' e w2)
                  | (Inr (code2, txt2, b2), w2) \<Rightarrow>
                      if code2 = 200 then
                        (case b2 of
                           NotJson \<Rightarrow>
                             (Inr error_apology,
                              print_exc ''Error calling ollama: '' JSONDecodeError w2)
                         | JsonNonObject \<Rightarrow>
                             (Inr error_apology,
                              print_exc ''Error calling ollama: '' (AttributeError ''get'') w2)
                         | JsonObject result \<Rightarrow> (Inr (get_default result ''response'' []), w2))
                      else
                        (Inr error_apology,
                         print txt2 (print (''Error from ollama API: '' @ show_int code2) w2)))))"

section \<open>Speech synthesis (modules/tts.py)\<close>

fun play_with :: "os \<Rightarrow> (string \<times> string list) list \<Rightarrow> string \<Rightarrow> world \<Rightarrow> unit result" where
  "play_with os [] audio_file w =
     (Inr (), print ''No suitable audio player found. Install aplay, paplay, or sox.'' w)"
| "play_with os ((player, args) # players) audio_file w =
     (case subprocess_run os ([player] @ args @ [audio_file]) w of
        (Inr _, w1) \<Rightarrow> (Inr (), w1)
      | (Inl e, w1) \<Rightarrow>
          if tool_failure e then play_with os players audio_file w1 else (Inl e, w1))"

definition play_audio :: "os \<Rightarrow> string \<Rightarrow> world \<Rightarrow> unit result" where
  "play_audio os audio_file w =
     play_with os [(''aplay'', []), (''paplay'', []), (''play'', [''-q''])] audio_file w"

definition tts_piper :: "os \<Rightarrow> string \<Rightarrow> settings \<Rightarrow> world \<Rightarrow> unit result" where
  \<comment> \<open>\<open>_tts_piper\<close>: the \<open>try\<close> body is \<open>tried\<close>, the \<open>except\<close> clauses give \<open>handled\<close>, and the
      \<open>finally\<close> block follows, whose own exception replaces any pending one.\<close>
  "tts_piper os text config w =
     (let voice = get_default config ''voice'' ''en_US-amy-medium'';
          text_file_path = path_join (os_tmpdir os) (''tmp'' @ os_tmpname os w @ ''.txt'');
          w1 = write_file text_file_path text w;
          output_file = path_join (os_tmpdir os) ''tts_output.wav'';
          cmd = [''piper'', ''--model'', ''piper-voices/'' @ voice @ ''/model.onnx'',
                 ''--output_file'', output_file, ''--text_file'', text_file_path];
          tried =
            (case subprocess_run os cmd w1 of
               (Inl e, w2) \<Rightarrow> (Inl e, w2)
             | (Inr _, w2) \<Rightarrow> play_audio os output_file w2);
          handled =
            (case tried of
               (Inl (FileNotFoundError m), w3) \<Rightarrow>
                 (Inr (),
                  print ''Install with: pip install piper-tts''
                    (print (''Piper not found. Make sure it'' @ [CHR 0x27] @ ''s installed.'') w3))
             | (Inl (CalledProcessError c rc out err), w3) \<Rightarrow>
                 (Inr (), print_exc ''Error running piper: '' (CalledProcessError c rc out err) w3)
             | other \<Rightarrow> other)
      in case remove_file text_file_path (snd handled) of
           (Inl e, w4) \<Rightarrow> (Inl e, w4)
         | (Inr _, w4) \<Rightarrow>
             if path_exists w4 output_file then
               (case remove_file output_file w4 of
                  (Inl e, w5) \<Rightarrow> (Inl e, w5)
                | (Inr _, w5) \<Rightarrow> (fst handled, w5))
             else (fst handled, w4))"

definition tts_espeak :: "os \<Rightarrow> string \<Rightarrow> settings \<Rightarrow> world \<Rightarrow> unit result" where
  \<comment> \<open>\<open>_tts_espeak\<close>\<close>
  "tts_espeak os text config w =
     (let voice = get_default config ''voice'' ''en'';
          speed = get_default config ''speed'' ''150''
      in case subprocess_run os [''espeak'', ''-v'', voice, ''-s'', speed, text] w of
           (Inr _, w1) \<Rightarrow> (Inr (), w1)
         | (Inl (FileNotFoundError m), w1) \<Rightarrow>
             (Inr (),
              print ''Install with: sudo apt-get install espeak''
                (print (''espeak not found. Make sure it'' @ [CHR 0x27] @ ''s installed.'') w1))
         | (Inl (CalledProcessError c rc out err), w1) \<Rightarrow>
             (Inr (), print_exc ''Error running espeak: '' (CalledProcessError c rc out err) w1)
         | (Inl e, w1) \<Rightarrow> (Inl e, w1))"

definition text_to_speech :: "os \<Rightarrow> string \<Rightarrow> settings \<Rightarrow> world \<Rightarrow> unit result" where
  "text_to_speech os text config w =
     (let engine = get_default config ''engine'' ''piper'' in
      if engine = ''piper'' then tts_piper os text config w
      else if engine = ''espeak'' then tts_espeak os text config w
      else (Inr (),
            print ''Supported engines: piper, espeak''
              (print (''Unsupported TTS engine: '' @ engine) w)))"

section \<open>The orchestrator (main.py)\<close>

definition run_assistant :: "os \<Rightarrow> config \<Rightarrow> world \<Rightarrow> unit result" where
  "run_assistant os config w =
     (let w0 = print (CHR 0x0A # ''Listening... (press Ctrl+C to stop)'') w in
      case config ''audio'' of
        None \<Rightarrow> (Inl (KeyError ''audio''), w0)
      | Some audio \<Rightarrow>
      (case record_audio os audio w0 of
        (Inl e, w1) \<Rightarrow> (Inl e, w1)
      | (Inr audio_file, w1) \<Rightarrow>
      let w2 = print ''Transcribing...'' w1 in
      (case config ''whisper'' of
        None \<Rightarrow> (Inl (KeyError ''whisper''), w2)
      | Some whisper \<Rightarrow>
      (case transcribe_audio os audio_file whisper w2 of
        (Inl e, w3) \<Rightarrow> (Inl e, w3)
      | (Inr transcript, w3) \<Rightarrow>
      let w4 = print (''You said: '' @ transcript) w3 in
      if py_strip transcript = [] then
        (Inr (), print ''No speech detected. Please try again.'' w4)
      else
      let w5 = print ''Processing with Ollama...'' w4 in
      (case config ''ollama'' of
        None \<Rightarrow> (Inl (KeyError ''ollama''), w5)
      | Some ollama \<Rightarrow>
      (case process_with_ollama os transcript ollama w5 of
        (Inl e, w6) \<Rightarrow> (Inl e, w6)
      | (Inr response, w6) \<Rightarrow>
      let w7 = print ''Converting to speech...'' (print (''Assistant: '' @ response) w6) in
      (case config ''tts'' of
        None \<Rightarrow> (Inl (KeyError ''tts''), w7)
      | Some tts \<Rightarrow> text_to_speech os response tts w7)))))))"

record args =
  arg_config :: string
  arg_model :: "string option"
  arg_whisper_model :: "string option"
  arg_tts_engine :: "string option"
  arg_continuous :: bool

definition item :: "config \<Rightarrow> string \<Rightarrow> string \<Rightarrow> string option" where
  \<comment> \<open>The value at \<open>config[sec][key]\<close>, if both keys are there.\<close>
  "item config sec key = (case config sec of None \<Rightarrow> None | Some s \<Rightarrow> s key)"

definition set_item :: "config \<Rightarrow> string \<Rightarrow> string \<Rightarrow> string \<Rightarrow> pyerr + config" where
  \<comment> \<open>\<open>config[sec][key] = v\<close>\<close>
  "set_item config sec key v =
     (case config sec of
        None \<Rightarrow> Inl (KeyError sec)
      | Some s \<Rightarrow> Inr (config(sec \<mapsto> s(key \<mapsto> v))))"

definition override :: "string option \<Rightarrow> string \<Rightarrow> string \<Rightarrow> config \<Rightarrow> pyerr + config" where
  \<comment> \<open>\<open>if flag: config[sec][key] = flag\<close>: a flag that was not given is \<open>None\<close>, and
      \<open>None\<close> and the empty string are both false.\<close>
  "override flag sec key config =
     (case flag of
        None \<Rightarrow> Inr config
      | Some v \<Rightarrow> if v = [] then Inr config else set_item config sec key v)"

definition main_overrides :: "args \<Rightarrow> config \<Rightarrow> pyerr + config" where
  \<comment> \<open>Lines 39 to 45 of \<open>main\<close>: the command line overrides the loaded configuration.\<close>
  "main_overrides a config =
     (case override (arg_model a) ''ollama'' ''model'' config of
        Inl e \<Rightarrow> Inl e
      | Inr c1 \<Rightarrow>
          (case override (arg_whisper_model a) ''whisper'' ''model'' c1 of
             Inl e \<Rightarrow> Inl e
           | Inr c2 \<Rightarrow> override (arg_tts_engine a) ''tts'' ''engine'' c2))"

definition default_config :: config where
  \<comment> \<open>The mapping \<open>create_default_config\<close> writes.\<close>
  "default_config =
     [''whisper'' \<mapsto> [''model'' \<mapsto> ''base.en'',
                     ''executable'' \<mapsto> ''./whisper.cpp/main'',
                     ''params'' \<mapsto> ''--model models/ggml-base.en.bin -l en''],
      ''ollama'' \<mapsto> [''model'' \<mapsto> ''llama3'',
                    ''system_prompt'' \<mapsto>
                      ''You are a helpful voice assistant. Provide concise responses.''],
      ''tts'' \<mapsto> [''engine'' \<mapsto> ''piper'', ''voice'' \<mapsto> ''en_US-amy-medium''],
      ''audio'' \<mapsto> [''device'' \<mapsto> ''default'', ''sample_rate'' \<mapsto> ''16000'',
                   ''duration'' \<mapsto> ''5'']]"

section \<open>Vocabulary of the specification\<close>

definition sibling_txt :: "string \<Rightarrow> string" where
  \<comment> \<open>The specification's expected output of the recognizer: the file beside the audio
      file (same directory) with the same base name and the extension \<open>.txt\<close>.\<close>
  "sibling_txt audio_file =
     (let p = path_str audio_file;
          name = path_name audio_file;
          stem = take (length name - length (path_suffix audio_file)) name
      in take (length p - length name) p @ stem @ ''.txt'')"



section \<open>Example environments\<close>

definition mock_os :: "(string list \<Rightarrow> world \<Rightarrow> proc_result) \<Rightarrow> http_result \<Rightarrow> http_result \<Rightarrow> os" where
  \<comment> \<open>A machine whose programs behave as \<open>run\<close> says and whose server answers every GET
      with \<open>got\<close> and every POST with \<open>posted\<close>.\<close>
  "mock_os run got posted =
     \<lparr>os_run = run, os_get = (\<lambda>url w. got), os_post = (\<lambda>url pl w. posted),
      os_time = (\<lambda>w. 1700000000), os_tmpdir = ''/tmp'', os_tmpname = (\<lambda>w. ''k3x9'')\<rparr>"

definition silence :: "string list \<Rightarrow> world \<Rightarrow> proc_result" where
  \<comment> \<open>Every program runs, prints blanks and changes no file.\<close>
  "silence cmd w = Exited 0 ''   '' [] (files w)"

definition no_tools :: "string list \<Rightarrow> world \<Rightarrow> proc_result" where
  "no_tools cmd w = NoSuchProgram"


definition writes_sibling :: "string \<Rightarrow> string list \<Rightarrow> world \<Rightarrow> proc_result" where
  \<comment> \<open>Every program runs and leaves \<open>hello\<close> in the text file beside \<open>audio_file\<close>.\<close>
  "writes_sibling audio_file cmd w =
     Exited 0 ''from stdout'' [] ((files w)(sibling_txt audio_file \<mapsto> ''hello''))"

definition refused :: http_result where
  "refused = ConnectionRefused ''connection refused''"

definition installed :: world where
  \<comment> \<open>A machine with the recognizer in place, before anything has run.\<close>
  "installed = \<lparr>files = [''whisper.cpp/main'' \<mapsto> ''binary''], trace = []\<rparr>"

definition bare :: world where
  "bare = \<lparr>files = Map.empty, trace = []\<rparr>"

definition no_flags :: args where
  "no_flags = \<lparr>arg_config = ''config.json'', arg_model = None, arg_whisper_model = None,
               arg_tts_engine = None, arg_continuous = False\<rparr>"

section \<open>Basic facts about the world\<close>

lemma trace_log: "trace (log e w) = trace w @ [e]"
  by (simp add: log_def)

lemma files_log: "files (log e w) = files w"
  by (simp add: log_def)


lemma files_print: "files (print s w) = files w"
  by (simp add: print_def log_def)

lemma path_exists_print: "path_exists (print s w) p = path_exists w p"
  by (simp add: path_exists_def files_print)


section \<open>Speech synthesis: unknown engines\<close>

text \<open>
  Claim C9. For every text and every configured engine value other than \<open>piper\<close> and
  \<open>espeak\<close>, \<open>text_to_speech\<close> returns normally and the only thing it does is print the
  unsupported-engine message and the list of supported engines: no process is started and
  the file system is left as it was.
\<close>

theorem unsupported_engine_no_op:
  assumes "config ''engine'' = Some engine"
    and "engine \<noteq> ''piper''" and "engine \<noteq> ''espeak''"
  shows "text_to_speech os text config w =
           (Inr (), w\<lparr>trace := trace w @ [Print (''Unsupported TTS engine: '' @ engine),
                                           Print ''Supported engines: piper, espeak'']\<rparr>)"
  using assms by (simp add: text_to_speech_def get_default_def print_def log_def)

theorem unsupported_engine_no_op_witness:
  "text_to_speech (mock_os no_tools refused refused) ''hello'' [''engine'' \<mapsto> ''festival''] bare =
     (Inr (), bare\<lparr>trace := [Print ''Unsupported TTS engine: festival'',
                               Print ''Supported engines: piper, espeak'']\<rparr>)"
  using unsupported_engine_no_op [of "[''engine'' \<mapsto> ''festival'']" "''festival''"
      "mock_os no_tools refused refused" "''hello''" bare]
  by (simp add: bare_def)

section \<open>Response generation\<close>

text \<open>
  Claim C3. For every input text and every configuration that names a model, if the
  liveness request to the listing endpoint cannot connect, or is answered with a status
  other than 200, then \<open>process_with_ollama\<close> returns the fixed apology string as a
  normal result, having made the liveness request and printed one line: no generation
  request is issued and no exception is raised.
\<close>

theorem liveness_failure_apology:
  assumes "config ''model'' = Some model"
    and "(\<exists>m. os_get os tags_url w = ConnectionRefused m) \<or>
         (\<exists>code txt b. os_get os tags_url w = Response code txt b \<and> code \<noteq> 200)"
  shows "\<exists>msg. process_with_ollama os text config w =
           (Inr connect_apology, w\<lparr>trace := trace w @ [HttpGet tags_url, Print msg]\<rparr>)"
  using assms
  by (auto simp add: process_with_ollama_def requests_get_def print_def log_def)

theorem liveness_failure_apology_witness:
  "process_with_ollama (mock_os no_tools refused refused) ''what time is it''
     [''model'' \<mapsto> ''llama3''] bare =
     (Inr connect_apology,
      bare\<lparr>trace := [HttpGet tags_url,
                         Print ''Ollama server not running. Please start ollama service.'']\<rparr>)"
proof -
  have model: "[''model'' \<mapsto> ''llama3''] ''model'' = Some ''llama3''"
    by simp
  have down: "(\<exists>m. os_get (mock_os no_tools refused refused) tags_url bare = ConnectionRefused m) \<or>
      (\<exists>code txt b. os_get (mock_os no_tools refused refused) tags_url bare = Response code txt b \<and>
         code \<noteq> 200)"
    by (simp add: mock_os_def refused_def)
  from liveness_failure_apology
    [of "[''model'' \<mapsto> ''llama3'']" "''llama3''" "mock_os no_tools refused refused" bare
        "''what time is it''", OF model down]
  obtain msg where run: "process_with_ollama (mock_os no_tools refused refused)
      ''what time is it'' [''model'' \<mapsto> ''llama3''] bare =
      (Inr connect_apology, bare\<lparr>trace := trace bare @ [HttpGet tags_url, Print msg]\<rparr>)"
    by (elim exE)
  have "trace (snd (process_with_ollama (mock_os no_tools refused refused)
      ''what time is it'' [''model'' \<mapsto> ''llama3''] bare)) =
      [HttpGet tags_url, Print ''Ollama server not running. Please start ollama service.'']"
    by (simp add: process_with_ollama_def requests_get_def mock_os_def refused_def print_def
        log_def bare_def)
  with run have "msg = ''Ollama server not running. Please start ollama service.''"
    by (simp add: bare_def)
  with run show ?thesis
    by (simp add: bare_def)
qed

text \<open>
  Claim C8. When the liveness check is answered with status 200 and the generation
  endpoint answers with status 200 and a JSON object whose \<open>response\<close> field is \<open>v\<close>
  (for instance \<open>hello\<close>), \<open>process_with_ollama\<close> returns exactly \<open>v\<close>.
\<close>

theorem generation_returns_response_field:
  assumes "config ''model'' = Some model"
    and "os_get os tags_url w = Response 200 txt b"
    and "os_post os generate_url
           \<lparr>p_model = model, p_prompt = text,
            p_system = get_default config ''system_prompt'' ''You are a helpful assistant.'',
            p_stream = False\<rparr>
           (log (HttpGet tags_url) w) = Response 200 txt2 (JsonObject result)"
    and "result ''response'' = Some v"
  shows "fst (process_with_ollama os text config w) = Inr v"
  using assms
  by (simp add: process_with_ollama_def requests_get_def requests_post_def get_default_def)

theorem generation_returns_response_field_witness:
  "fst (process_with_ollama
          (mock_os no_tools (Response 200 [] NotJson)
             (Response 200 [] (JsonObject [''response'' \<mapsto> ''hello''])))
          ''say hello'' [''model'' \<mapsto> ''llama3''] bare) = Inr ''hello''"
  using generation_returns_response_field
    [of "[''model'' \<mapsto> ''llama3'']" "''llama3''"
        "mock_os no_tools (Response 200 [] NotJson)
           (Response 200 [] (JsonObject [''response'' \<mapsto> ''hello'']))"
        bare "[]" NotJson "''say hello''" "[]" "[''response'' \<mapsto> ''hello'']" "''hello''"]
  by (simp add: mock_os_def)

text \<open>
  Claim C10. When the liveness check is answered with status 200 and the generation
  endpoint answers with status 200 and a JSON object that has no \<open>response\<close> field,
  \<open>process_with_ollama\<close> returns the empty string as a normal result: neither of the two
  apology strings, and no error.
\<close>

theorem missing_response_field_is_empty:
  assumes "config ''model'' = Some model"
    and "os_get os tags_url w = Response 200 txt b"
    and "os_post os generate_url
           \<lparr>p_model = model, p_prompt = text,
            p_system = get_default config ''system_prompt'' ''You are a helpful assistant.'',
            p_stream = False\<rparr>
           (log (HttpGet tags_url) w) = Response 200 txt2 (JsonObject result)"
    and "result ''response'' = None"
  shows "fst (process_with_ollama os text config w) = Inr [] \<and>
         fst (process_with_ollama os text config w) \<noteq> Inr connect_apology \<and>
         fst (process_with_ollama os text config w) \<noteq> Inr error_apology"
  using assms
  by (simp add: process_with_ollama_def requests_get_def requests_post_def get_default_def
      connect_apology_def error_apology_def)

theorem missing_response_field_is_empty_witness:
  "fst (process_with_ollama
          (mock_os no_tools (Response 200 [] NotJson)
             (Response 200 [] (JsonObject [''done'' \<mapsto> ''true''])))
          ''say hello'' [''model'' \<mapsto> ''llama3''] bare) = Inr []"
  using missing_response_field_is_empty
    [of "[''model'' \<mapsto> ''llama3'']" "''llama3''"
        "mock_os no_tools (Response 200 [] NotJson)
           (Response 200 [] (JsonObject [''done'' \<mapsto> ''true'']))"
        bare "[]" NotJson "''say hello''" "[]" "[''done'' \<mapsto> ''true'']"]
  by (simp add: mock_os_def)

section \<open>Transcription: failures\<close>

lemma whisper_default:
  "default_config ''whisper'' =
     Some [''model'' \<mapsto> ''base.en'', ''executable'' \<mapsto> ''./whisper.cpp/main'',
           ''params'' \<mapsto> ''--model models/ggml-base.en.bin -l en'']"
  by (simp add: default_config_def)

lemma path_str_default_executable: "path_str ''./whisper.cpp/main'' = ''whisper.cpp/main''"
  by (simp add: path_str_def path_root_def path_parts_def)

lemma record_audio_silence:
  "record_audio (mock_os silence g p) (the (default_config ''audio'')) w =
     (Inr ''/tmp/recording_1700000000.wav'',
      w\<lparr>trace := trace w @
         [Spawn [''arecord'', ''-D'', ''default'', ''-f'', ''S16_LE'', ''-c'', ''1'',
                 ''-r'', ''16000'', ''-d'', ''5'', ''/tmp/recording_1700000000.wav'']]\<rparr>)"
  by (simp add: record_audio_def default_config_def get_default_def recording_path_def
      mock_os_def silence_def subprocess_run_def arecord_cmd_def path_join_def show_int_def
      show_nat.simps log_def Let_def)



text \<open>
  Claim C5. For every whisper configuration whose \<open>executable\<close> path does not exist,
  \<open>transcribe_audio\<close> raises a file-not-found error and leaves the world exactly as it was
  (no process is started); and in a cycle whose recording succeeded, \<open>run_assistant\<close> ends
  with that same error right after printing \<open>Transcribing...\<close>: nothing catches it.
\<close>

theorem missing_executable_propagates:
  assumes "whisper ''executable'' = Some exe"
    and "msg = ''Whisper executable not found at '' @ path_str exe @
               ''. Please install whisper.cpp and update the config.''"
  shows "(\<not> path_exists w (path_str exe) \<longrightarrow>
            transcribe_audio os audio_file whisper w = (Inl (FileNotFoundError msg), w)) \<and>
         (config ''audio'' = Some audio \<and> config ''whisper'' = Some whisper \<and>
          record_audio os audio (print (CHR 0x0A # ''Listening... (press Ctrl+C to stop)'') w) =
            (Inr audio_file, w1) \<and>
          \<not> path_exists w1 (path_str exe) \<longrightarrow>
            run_assistant os config w =
              (Inl (FileNotFoundError msg), print ''Transcribing...'' w1))"
  using assms
  by (simp add: transcribe_audio_def run_assistant_def path_exists_print Let_def)

theorem missing_executable_propagates_witness:
  "run_assistant (mock_os silence refused refused) default_config bare =
     (Inl (FileNotFoundError
        ''Whisper executable not found at whisper.cpp/main. Please install whisper.cpp and update the config.''),
      bare\<lparr>trace :=
        [Print (CHR 0x0A # ''Listening... (press Ctrl+C to stop)''),
         Spawn [''arecord'', ''-D'', ''default'', ''-f'', ''S16_LE'', ''-c'', ''1'',
                 ''-r'', ''16000'', ''-d'', ''5'', ''/tmp/recording_1700000000.wav''],
         Print ''Transcribing...'']\<rparr>)"
  using missing_executable_propagates
    [where whisper = "the (default_config ''whisper'')" and exe = "''./whisper.cpp/main''"
       and config = default_config and audio = "the (default_config ''audio'')"
       and os = "mock_os silence refused refused" and w = bare
       and audio_file = "''/tmp/recording_1700000000.wav''"
       and ?w1.0 = "snd (record_audio (mock_os silence refused refused)
                      (the (default_config ''audio''))
                      (print (CHR 0x0A # ''Listening... (press Ctrl+C to stop)'') bare))"]
  by (simp add: record_audio_silence path_str_default_executable whisper_default
      path_exists_def bare_def print_def log_def, simp add: default_config_def)

section \<open>The cycle on a blank transcript\<close>





lemma output_path_recording:
  "output_path ''/tmp/recording_1700000000.wav'' = ''/tmp/recording_1700000000.txt''"
  by (simp add: output_path_def py_replace_def path_suffix_def path_name_def path_parts_def
      path_str_def path_root_def Let_def)



section \<open>Audio capture: the fallback recorder\<close>





section \<open>Transcription: where the transcript is looked for\<close>

lemma sibling_txt_recording:
  "sibling_txt ''/tmp/recording_1700000000.wav'' = output_path ''/tmp/recording_1700000000.wav''"
  by (simp add: output_path_recording sibling_txt_def path_suffix_def path_name_def
      path_parts_def path_str_def path_root_def Let_def)

text \<open>
  Claim C2 says that after a successful run of the recognizer \<open>transcribe_audio\<close> looks
  for the transcript in the file beside the audio file with the same base name and the
  extension \<open>.txt\<close>. The code replaces every occurrence of the suffix in the whole path
  string. For the audio file \<open>/srv/in.wav/take.wav\<close> the sibling is
  \<open>/srv/in.wav/take.txt\<close>, but the code looks at \<open>/srv/in.txt/take.txt\<close>: with the
  transcript \<open>hello\<close> waiting in the sibling file, \<open>transcribe_audio\<close> returns the
  standard output of the recognizer instead and leaves the sibling file where it is.
\<close>

theorem transcribe_audio_misses_sibling_file:
  "sibling_txt ''/srv/in.wav/take.wav'' = ''/srv/in.wav/take.txt'' \<and>
   output_path ''/srv/in.wav/take.wav'' = ''/srv/in.txt/take.txt'' \<and>
   fst (transcribe_audio (mock_os (writes_sibling ''/srv/in.wav/take.wav'') refused refused)
          ''/srv/in.wav/take.wav''
          [''model'' \<mapsto> ''base.en'', ''executable'' \<mapsto> ''./whisper.cpp/main''] installed) =
     Inr ''from stdout'' \<and>
   files (snd (transcribe_audio
                 (mock_os (writes_sibling ''/srv/in.wav/take.wav'') refused refused)
                 ''/srv/in.wav/take.wav''
                 [''model'' \<mapsto> ''base.en'', ''executable'' \<mapsto> ''./whisper.cpp/main'']
                 installed))
     ''/srv/in.wav/take.txt'' = Some ''hello''"
proof -
  have sibling: "sibling_txt ''/srv/in.wav/take.wav'' = ''/srv/in.wav/take.txt''"
    by (simp add: sibling_txt_def path_suffix_def path_name_def path_parts_def path_str_def
        path_root_def Let_def)
  have looked: "output_path ''/srv/in.wav/take.wav'' = ''/srv/in.txt/take.txt''"
    by (simp add: output_path_def py_replace_def path_suffix_def path_name_def path_parts_def
        path_str_def path_root_def Let_def)
  have run: "transcribe_audio (mock_os (writes_sibling ''/srv/in.wav/take.wav'') refused refused)
          ''/srv/in.wav/take.wav''
          [''model'' \<mapsto> ''base.en'', ''executable'' \<mapsto> ''./whisper.cpp/main''] installed =
        (Inr ''from stdout'',
         \<lparr>files = [''whisper.cpp/main'' \<mapsto> ''binary'', ''/srv/in.wav/take.txt'' \<mapsto> ''hello''],
          trace = [Spawn [''whisper.cpp/main'', ''-f'', ''/srv/in.wav/take.wav'', ''-m'',
                          ''./whisper.cpp/models/ggml-base.en.bin'', ''-otxt'']]\<rparr>)"
    by (simp add: transcribe_audio_def path_str_default_executable looked sibling
        subprocess_run_def mock_os_def writes_sibling_def whisper_cmd_def installed_def
        path_exists_def py_strip_def is_space_def log_def Let_def)
  show ?thesis
    by (simp add: sibling looked run)
qed

section \<open>Command-line overrides\<close>

lemma override_frame:
  assumes "config sec \<noteq> None"
  shows "\<exists>config'. override flag sec key config = Inr config' \<and>
           dom config' = dom config \<and>
           (\<forall>s k. (s, k) \<noteq> (sec, key) \<longrightarrow> item config' s k = item config s k) \<and>
           item config' sec key =
             (case flag of None \<Rightarrow> item config sec key
              | Some v \<Rightarrow> if v = [] then item config sec key else Some v)"
  using assms
  by (cases flag) (auto simp add: override_def set_item_def item_def)

text \<open>
  Claim C4, as stated, fails for a flag given with an empty value: \<open>--model ""\<close> is
  provided, yet the test \<open>if args.model\<close> is false for the empty string and the model of
  the loaded configuration stays \<open>llama3\<close>.
\<close>

theorem empty_flag_does_not_override:
  "arg_model (no_flags\<lparr>arg_model := Some []\<rparr>) = Some [] \<and>
   main_overrides (no_flags\<lparr>arg_model := Some []\<rparr>) default_config = Inr default_config \<and>
   item default_config ''ollama'' ''model'' = Some ''llama3''"
  by (simp add: main_overrides_def override_def no_flags_def item_def default_config_def)

text \<open>
  Claim C4, amended. For every loaded configuration that has the sections \<open>ollama\<close>,
  \<open>whisper\<close> and \<open>tts\<close>, and every combination of the flags \<open>--model\<close>,
  \<open>--whisper-model\<close> and \<open>--tts-engine\<close>: each flag given with a non-empty value
  replaces exactly \<open>config["ollama"]["model"]\<close>, \<open>config["whisper"]["model"]\<close> or
  \<open>config["tts"]["engine"]\<close> respectively; a flag that is absent or empty leaves its
  value as loaded; the set of sections and every other nested value are unchanged.
\<close>

theorem overrides_replace_exactly_three_values:
  assumes "config ''ollama'' \<noteq> None"
    and "config ''whisper'' \<noteq> None"
    and "config ''tts'' \<noteq> None"
  shows "\<exists>config'. main_overrides a config = Inr config' \<and>
           dom config' = dom config \<and>
           (\<forall>v. arg_model a = Some v \<and> v \<noteq> [] \<longrightarrow>
                item config' ''ollama'' ''model'' = Some v) \<and>
           (\<forall>v. arg_whisper_model a = Some v \<and> v \<noteq> [] \<longrightarrow>
                item config' ''whisper'' ''model'' = Some v) \<and>
           (\<forall>v. arg_tts_engine a = Some v \<and> v \<noteq> [] \<longrightarrow>
                item config' ''tts'' ''engine'' = Some v) \<and>
           (arg_model a = None \<or> arg_model a = Some [] \<longrightarrow>
                item config' ''ollama'' ''model'' = item config ''ollama'' ''model'') \<and>
           (arg_whisper_model a = None \<or> arg_whisper_model a = Some [] \<longrightarrow>
                item config' ''whisper'' ''model'' = item config ''whisper'' ''model'') \<and>
           (arg_tts_engine a = None \<or> arg_tts_engine a = Some [] \<longrightarrow>
                item config' ''tts'' ''engine'' = item config ''tts'' ''engine'') \<and>
           (\<forall>s k. (s, k) \<notin> {(''ollama'', ''model''), (''whisper'', ''model''),
                               (''tts'', ''engine'')} \<longrightarrow>
                item config' s k = item config s k)"
proof -
  from override_frame
    [where config = config and sec = "''ollama''" and flag = "arg_model a"
       and key = "''model''", OF assms(1)]
  obtain c1 where s1: "override (arg_model a) ''ollama'' ''model'' config = Inr c1"
    and d1: "dom c1 = dom config"
    and f1: "\<forall>s k. (s, k) \<noteq> (''ollama'', ''model'') \<longrightarrow> item c1 s k = item config s k"
    and v1: "item c1 ''ollama'' ''model'' =
               (case arg_model a of None \<Rightarrow> item config ''ollama'' ''model''
                | Some v \<Rightarrow> if v = [] then item config ''ollama'' ''model'' else Some v)"
    by blast
  have sec2: "c1 ''whisper'' \<noteq> None"
    using assms(2) d1 by (metis domIff)
  from override_frame
    [where config = c1 and sec = "''whisper''" and flag = "arg_whisper_model a"
       and key = "''model''", OF sec2]
  obtain c2 where s2: "override (arg_whisper_model a) ''whisper'' ''model'' c1 = Inr c2"
    and d2: "dom c2 = dom c1"
    and f2: "\<forall>s k. (s, k) \<noteq> (''whisper'', ''model'') \<longrightarrow> item c2 s k = item c1 s k"
    and v2: "item c2 ''whisper'' ''model'' =
               (case arg_whisper_model a of None \<Rightarrow> item c1 ''whisper'' ''model''
                | Some v \<Rightarrow> if v = [] then item c1 ''whisper'' ''model'' else Some v)"
    by blast
  have sec3: "c2 ''tts'' \<noteq> None"
    using assms(3) d1 d2 by (metis domIff)
  from override_frame
    [where config = c2 and sec = "''tts''" and flag = "arg_tts_engine a"
       and key = "''engine''", OF sec3]
  obtain c3 where s3: "override (arg_tts_engine a) ''tts'' ''engine'' c2 = Inr c3"
    and d3: "dom c3 = dom c2"
    and f3: "\<forall>s k. (s, k) \<noteq> (''tts'', ''engine'') \<longrightarrow> item c3 s k = item c2 s k"
    and v3: "item c3 ''tts'' ''engine'' =
               (case arg_tts_engine a of None \<Rightarrow> item c2 ''tts'' ''engine''
                | Some v \<Rightarrow> if v = [] then item c2 ''tts'' ''engine'' else Some v)"
    by blast
  have run: "main_overrides a config = Inr c3"
    by (simp add: main_overrides_def s1 s2 s3)
  have dom: "dom c3 = dom config"
    by (simp add: d1 d2 d3)
  have ollama: "item c3 ''ollama'' ''model'' = item c1 ''ollama'' ''model''"
    using f2 f3 by simp
  have whisper: "item c3 ''whisper'' ''model'' = item c2 ''whisper'' ''model''"
    and whisper0: "item c1 ''whisper'' ''model'' = item config ''whisper'' ''model''"
    using f1 f3 by simp_all
  have tts: "item c2 ''tts'' ''engine'' = item config ''tts'' ''engine''"
    using f1 f2 by simp
  have others: "\<forall>s k. (s, k) \<notin> {(''ollama'', ''model''), (''whisper'', ''model''),
                               (''tts'', ''engine'')} \<longrightarrow>
                item c3 s k = item config s k"
    using f1 f2 f3 by simp
  show ?thesis
    using run dom others
    by (auto simp add: ollama v1 whisper whisper0 v2 tts v3)
qed

theorem overrides_replace_exactly_three_values_witness:
  "\<exists>config'. main_overrides (no_flags\<lparr>arg_model := Some ''mistral''\<rparr>) default_config =
              Inr config' \<and>
     item config' ''ollama'' ''model'' = Some ''mistral'' \<and>
     item config' ''whisper'' ''model'' = Some ''base.en'' \<and>
     item config' ''tts'' ''engine'' = Some ''piper'' \<and>
     item config' ''ollama'' ''system_prompt'' =
       Some ''You are a helpful voice assistant. Provide concise responses.''"
proof -
  let ?a = "no_flags\<lparr>arg_model := Some ''mistral''\<rparr>"
  have h1: "default_config ''ollama'' \<noteq> None"
    and h2: "default_config ''whisper'' \<noteq> None"
    and h3: "default_config ''tts'' \<noteq> None"
    by (simp_all add: default_config_def)
  from overrides_replace_exactly_three_values [OF h1 h2 h3, of ?a]
  obtain config' where run: "main_overrides ?a default_config = Inr config'"
    and model: "\<forall>v. arg_model ?a = Some v \<and> v \<noteq> [] \<longrightarrow>
                  item config' ''ollama'' ''model'' = Some v"
    and whisper: "arg_whisper_model ?a = None \<or> arg_whisper_model ?a = Some [] \<longrightarrow>
                  item config' ''whisper'' ''model'' = item default_config ''whisper'' ''model''"
    and tts: "arg_tts_engine ?a = None \<or> arg_tts_engine ?a = Some [] \<longrightarrow>
                  item config' ''tts'' ''engine'' = item default_config ''tts'' ''engine''"
    and others: "\<forall>s k. (s, k) \<notin> {(''ollama'', ''model''), (''whisper'', ''model''),
                               (''tts'', ''engine'')} \<longrightarrow>
                  item config' s k = item default_config s k"
    by (elim exE conjE) (rule that; assumption)
  have "item config' ''ollama'' ''model'' = Some ''mistral''"
    using model by simp
  moreover have "item config' ''whisper'' ''model'' = Some ''base.en''"
    using whisper by (simp add: no_flags_def item_def default_config_def)
  moreover have "item config' ''tts'' ''engine'' = Some ''piper''"
    using tts by (simp add: no_flags_def item_def default_config_def)
  moreover have "item config' ''ollama'' ''system_prompt'' =
       Some ''You are a helpful voice assistant. Provide concise responses.''"
    using others by (simp add: item_def default_config_def)
  ultimately show ?thesis
    using run by simp
qed

end
